theory Spec2Isabelle
  imports Complex_Main
begin

section \<open>Python exceptions as values\<close>

text \<open>
  Every \<^verbatim>\<open>raise\<close> the modelled code can meet is a value of this type; a function that
  can raise returns \<open>py_error + 'a\<close> with \<open>Inl\<close> for the exception. \<open>TransportError\<close> stands
  for whatever \<^verbatim>\<open>httpx\<close> raises (timeout, connection failure), \<open>JSONDecodeError\<close> for a body
  that \<^verbatim>\<open>resp.json()\<close> cannot parse.
\<close>

datatype py_error =
    KeyError | TypeError | ValueError | AttributeError | IndexError
  | OverflowError | ZeroDivisionError | TransportError | JSONDecodeError

section \<open>The caching decorator (app.py, \<^verbatim>\<open>timed_cache\<close>)\<close>

text \<open>
  \<^verbatim>\<open>cache = {}\<close> is one dictionary per decorated function, from the key
  \<^verbatim>\<open>str(args) + str(kwargs)\<close> to the pair \<^verbatim>\<open>(result, timestamp)\<close>. Timestamps are the values
  of \<^verbatim>\<open>time()\<close>, taken here as real numbers (the rounding of the float subtraction
  \<^verbatim>\<open>now - timestamp\<close> is not modelled).

  The decorated function has effects (network calls, the token globals), so it is a
  function of the world \<open>'w\<close> that returns the new world; it may raise. Python's \<^verbatim>\<open>str\<close> on
  the positional tuple and on the keyword dictionary are the parameters \<open>str_a\<close> and \<open>str_k\<close>.
\<close>

type_synonym 'r cache = "string \<rightharpoonup> ('r \<times> real)"

type_synonym ('a, 'k, 'w, 'r) operation = "'a \<Rightarrow> 'k \<Rightarrow> 'w \<Rightarrow> (py_error + 'r) \<times> 'w"

definition cache_key :: "('a \<Rightarrow> string) \<Rightarrow> ('k \<Rightarrow> string) \<Rightarrow> 'a \<Rightarrow> 'k \<Rightarrow> string" where
  "cache_key str_a str_k args kwargs = str_a args @ str_k kwargs"

text \<open>
  The part of \<^verbatim>\<open>wrapper\<close> after the hit test: call \<^verbatim>\<open>func\<close>, store \<^verbatim>\<open>(result, now)\<close> under the
  key, return the result. An exception of \<^verbatim>\<open>func\<close> leaves the wrapper before the store.
\<close>

definition call_through ::
  "('a, 'k, 'w, 'r) operation \<Rightarrow> string \<Rightarrow> 'a \<Rightarrow> 'k \<Rightarrow> real \<Rightarrow> 'r cache \<times> 'w
     \<Rightarrow> (py_error + 'r) \<times> 'r cache \<times> 'w" where
  "call_through func key args kwargs now cw =
     (case func args kwargs (snd cw) of
        (Inl e, w') \<Rightarrow> (Inl e, fst cw, w')
      | (Inr result, w') \<Rightarrow> (Inr result, (fst cw)(key \<mapsto> (result, now)), w'))"

definition wrapper ::
  "real \<Rightarrow> ('a, 'k, 'w, 'r) operation \<Rightarrow> ('a \<Rightarrow> string) \<Rightarrow> ('k \<Rightarrow> string)
     \<Rightarrow> 'a \<Rightarrow> 'k \<Rightarrow> real \<Rightarrow> 'r cache \<times> 'w \<Rightarrow> (py_error + 'r) \<times> 'r cache \<times> 'w" where
  "wrapper seconds func str_a str_k args kwargs now cw =
     (let key = cache_key str_a str_k args kwargs in
      case fst cw key of
        Some (result, timestamp) \<Rightarrow>
          if now - timestamp < seconds then (Inr result, fst cw, snd cw)
          else call_through func key args kwargs now cw
      | None \<Rightarrow> call_through func key args kwargs now cw)"

text \<open>\<^verbatim>\<open>wrapper.clear_cache = lambda: cache.clear()\<close>\<close>

definition clear_cache :: "'r cache \<Rightarrow> 'r cache" where
  "clear_cache cache = Map.empty"

text \<open>
  A history of uses of one decorated function, for statements about the first call and
  about call counts: each call carries its arguments and the clock value it reads.
\<close>

datatype ('a, 'k) cache_use = Call 'a 'k real | Clear

fun use_cache ::
  "real \<Rightarrow> ('a, 'k, 'w, 'r) operation \<Rightarrow> ('a \<Rightarrow> string) \<Rightarrow> ('k \<Rightarrow> string)
     \<Rightarrow> ('a, 'k) cache_use \<Rightarrow> 'r cache \<times> 'w \<Rightarrow> 'r cache \<times> 'w" where
  "use_cache seconds func str_a str_k (Call args kwargs now) cw =
     snd (wrapper seconds func str_a str_k args kwargs now cw)"
| "use_cache seconds func str_a str_k Clear cw = (clear_cache (fst cw), snd cw)"

fun run_cache ::
  "real \<Rightarrow> ('a, 'k, 'w, 'r) operation \<Rightarrow> ('a \<Rightarrow> string) \<Rightarrow> ('k \<Rightarrow> string)
     \<Rightarrow> ('a, 'k) cache_use list \<Rightarrow> 'r cache \<times> 'w \<Rightarrow> 'r cache \<times> 'w" where
  "run_cache seconds func str_a str_k [] cw = cw"
| "run_cache seconds func str_a str_k (u # us) cw =
     run_cache seconds func str_a str_k us (use_cache seconds func str_a str_k u cw)"

fun use_key :: "('a \<Rightarrow> string) \<Rightarrow> ('k \<Rightarrow> string) \<Rightarrow> ('a, 'k) cache_use \<Rightarrow> string option" where
  "use_key str_a str_k (Call args kwargs now) = Some (cache_key str_a str_k args kwargs)"
| "use_key str_a str_k Clear = None"

text \<open>An operation that counts its invocations in the world, for concrete runs.\<close>

definition counting_op :: "('a, 'k, nat, nat) operation" where
  "counting_op args kwargs n = (Inr (Suc n), Suc n)"

section \<open>Activity records and the streak (app.py and strava_backend.py, \<^verbatim>\<open>calculate_streak\<close>)\<close>

text \<open>
  An activity as the aggregators read it: \<^verbatim>\<open>a['type']\<close>, \<^verbatim>\<open>a['start_date']\<close>, \<^verbatim>\<open>a['distance']\<close>,
  \<^verbatim>\<open>a['moving_time']\<close> and the optional \<^verbatim>\<open>a.get('total_elevation_gain', 0)\<close>.
  \<open>start_date\<close> is the instant that
  \<^verbatim>\<open>datetime.fromisoformat(a['start_date'].replace('Z', '+00:00'))\<close> denotes, in seconds since
  the epoch; the service writes it in UTC (suffix \<^verbatim>\<open>Z\<close>), so \<^verbatim>\<open>.date()\<close> is the UTC calendar
  day, numbered here in days since the epoch. Distances and elevations are floats in the
  source and real numbers here.
\<close>

record activity =
  activity_type :: string
  start_date :: int
  distance :: real
  moving_time :: int
  total_elevation_gain :: "real option"

definition activity_date :: "activity \<Rightarrow> int" where
  "activity_date a = start_date a div 86400"

text \<open>
  \<^verbatim>\<open>sorted(activities, key=..., reverse=True)\<close>: descending by start instant, and stable
  (records with equal keys keep their order), which is an ascending stable sort on the
  negated key.
\<close>

definition sorted_activities :: "activity list \<Rightarrow> activity list" where
  "sorted_activities activities = sort_key (\<lambda>x. - start_date x) activities"

text \<open>
  The \<^verbatim>\<open>for\<close> loop with its two variables \<^verbatim>\<open>streak\<close> and \<^verbatim>\<open>current_check_date\<close>; \<^verbatim>\<open>break\<close>
  returns the count reached. A record later than the expected day takes neither branch.
\<close>

fun streak_loop :: "activity list \<Rightarrow> nat \<Rightarrow> int \<Rightarrow> nat" where
  "streak_loop [] streak current_check_date = streak"
| "streak_loop (activity # rest) streak current_check_date =
     (if activity_date activity = current_check_date
      then streak_loop rest (streak + 1) (current_check_date - 1)
      else if activity_date activity < current_check_date then streak
      else streak_loop rest streak current_check_date)"

text \<open>
  \<open>today\<close> is \<^verbatim>\<open>datetime.now(tz).date()\<close> (\<^verbatim>\<open>datetime.now().date()\<close> in strava_backend.py),
  read from the clock, as a day number.
\<close>

definition calculate_streak :: "int \<Rightarrow> activity list \<Rightarrow> nat" where
  "calculate_streak today activities =
     (if activities = [] then 0
      else streak_loop (sorted_activities activities) 0 today)"

section \<open>Python values, JSON and the network\<close>

text \<open>
  What \<^verbatim>\<open>resp.json()\<close> returns, and every value the fetchers pass on: \<open>JNull\<close> is \<^verbatim>\<open>None\<close>,
  \<open>JObj\<close> a dictionary as the list of its items (distinct keys), \<open>JNum\<close> an \<^verbatim>\<open>int\<close> or a
  \<^verbatim>\<open>float\<close> (real numbers here).
\<close>

datatype json =
    JNull | JBool bool | JNum real | JStr string | JArr "json list" | JObj "(string \<times> json) list"

text \<open>Truth value of a Python object, as \<^verbatim>\<open>if not x\<close> tests it.\<close>

fun truthy :: "json \<Rightarrow> bool" where
  "truthy JNull = False"
| "truthy (JBool b) = b"
| "truthy (JNum x) = (x \<noteq> 0)"
| "truthy (JStr s) = (s \<noteq> [])"
| "truthy (JArr xs) = (xs \<noteq> [])"
| "truthy (JObj kvs) = (kvs \<noteq> [])"

text \<open>\<^verbatim>\<open>d[key]\<close> with a string key: a dictionary looks it up, every other value raises.\<close>

fun subscript :: "json \<Rightarrow> string \<Rightarrow> py_error + json" where
  "subscript (JObj kvs) key = (case map_of kvs key of None \<Rightarrow> Inl KeyError | Some v \<Rightarrow> Inr v)"
| "subscript _ key = Inl TypeError"

text \<open>\<^verbatim>\<open>d.get(key, default)\<close>: only a dictionary has the method.\<close>

fun py_get :: "json \<Rightarrow> string \<Rightarrow> json \<Rightarrow> py_error + json" where
  "py_get (JObj kvs) key dflt = (case map_of kvs key of None \<Rightarrow> Inr dflt | Some v \<Rightarrow> Inr v)"
| "py_get _ key dflt = Inl AttributeError"

text \<open>\<^verbatim>\<open>len(x)\<close>: defined on strings, lists and dictionaries.\<close>

fun py_len :: "json \<Rightarrow> py_error + nat" where
  "py_len (JStr s) = Inr (length s)"
| "py_len (JArr xs) = Inr (length xs)"
| "py_len (JObj kvs) = Inr (length kvs)"
| "py_len _ = Inl TypeError"

text \<open>
  The network is a script of the outcomes of the calls still to come, and the log of the
  requests sent. An outcome is an exception of \<^verbatim>\<open>httpx\<close>, or a response with its status
  code and its body (\<open>None\<close> when \<^verbatim>\<open>resp.json()\<close> raises on it). A \<^verbatim>\<open>GET\<close> carries the value
  interpolated after \<^verbatim>\<open>Bearer\<close> in its \<^verbatim>\<open>Authorization\<close> header, if it has one; query parameters
  are part of the URL. Timeouts are among the exceptions. With the script used up, a call
  raises.
\<close>

datatype request =
    HttpPost string "(string \<times> string) list"
  | HttpGet string "json option"
  | HttpHead string

datatype http_outcome = Raises | Responds int "json option"

record net =
  pending :: "http_outcome list"
  sent :: "request list"

definition http_call :: "request \<Rightarrow> net \<Rightarrow> http_outcome \<times> net" where
  "http_call rq n =
     (case pending n of
        [] \<Rightarrow> (Raises, n\<lparr>sent := sent n @ [rq]\<rparr>)
      | out # rest \<Rightarrow> (out, n\<lparr>pending := rest, sent := sent n @ [rq]\<rparr>))"

section \<open>The token provider (app.py, \<^verbatim>\<open>refresh_strava_token\<close>, \<^verbatim>\<open>get_strava_token\<close>)\<close>

text \<open>
  The module constants read from the environment, and the two globals the refresh
  assigns. The globals hold whatever the token response carried, so they are JSON values;
  at start they are \<^verbatim>\<open>None\<close> and \<^verbatim>\<open>0\<close>. Calls of \<^verbatim>\<open>logger\<close> have no effect on the result and
  are left out, except where the logged expression can raise.
\<close>

record strava_config =
  STRAVA_CLIENT_ID :: string
  STRAVA_CLIENT_SECRET :: string
  STRAVA_REFRESH_TOKEN :: string

record token_state =
  STRAVA_ACCESS_TOKEN :: json
  STRAVA_TOKEN_EXPIRY :: json

definition initial_token_state :: token_state where
  "initial_token_state = \<lparr>STRAVA_ACCESS_TOKEN = JNull, STRAVA_TOKEN_EXPIRY = JNum 0\<rparr>"

definition token_request :: "strava_config \<Rightarrow> request" where
  "token_request cfg =
     HttpPost ''https://www.strava.com/oauth/token''
       [(''client_id'', STRAVA_CLIENT_ID cfg),
        (''client_secret'', STRAVA_CLIENT_SECRET cfg),
        (''refresh_token'', STRAVA_REFRESH_TOKEN cfg),
        (''grant_type'', ''refresh_token'')]"

text \<open>
  The two assignments run in order inside the \<^verbatim>\<open>try\<close>: when \<^verbatim>\<open>token_data['expires_at']\<close>
  raises, \<^verbatim>\<open>STRAVA_ACCESS_TOKEN\<close> has been assigned already.
\<close>

definition refresh_strava_token ::
  "strava_config \<Rightarrow> token_state \<times> net \<Rightarrow> json \<times> token_state \<times> net" where
  "refresh_strava_token cfg sn =
     (if STRAVA_REFRESH_TOKEN cfg = [] then (JNull, fst sn, snd sn)
      else
        case http_call (token_request cfg) (snd sn) of
          (Raises, n') \<Rightarrow> (JNull, fst sn, n')
        | (Responds status_code body, n') \<Rightarrow>
            if status_code = 200 then
              (case body of
                 None \<Rightarrow> (JNull, fst sn, n')
               | Some token_data \<Rightarrow>
                   (case subscript token_data ''access_token'' of
                      Inl e \<Rightarrow> (JNull, fst sn, n')
                    | Inr access_token \<Rightarrow>
                        (case subscript token_data ''expires_at'' of
                           Inl e \<Rightarrow>
                             (JNull, (fst sn)\<lparr>STRAVA_ACCESS_TOKEN := access_token\<rparr>, n')
                         | Inr expires_at \<Rightarrow>
                             (access_token,
                              (fst sn)\<lparr>STRAVA_ACCESS_TOKEN := access_token,
                                       STRAVA_TOKEN_EXPIRY := expires_at\<rparr>, n'))))
            else (JNull, fst sn, n'))"

text \<open>
  \<^verbatim>\<open>STRAVA_TOKEN_EXPIRY - 300\<close>: defined on numbers and on booleans (\<^verbatim>\<open>True\<close> is 1), a
  \<^verbatim>\<open>TypeError\<close> on everything else.
\<close>

fun minus_300 :: "json \<Rightarrow> py_error + real" where
  "minus_300 (JNum x) = Inr (x - 300)"
| "minus_300 (JBool b) = Inr ((if b then 1 else 0) - 300)"
| "minus_300 _ = Inl TypeError"

text \<open>
  \<open>current_time\<close> is \<^verbatim>\<open>datetime.now().timestamp()\<close>. The \<^verbatim>\<open>or\<close> evaluates its second operand
  only when a token is stored. The function has no \<^verbatim>\<open>try\<close>: a \<^verbatim>\<open>TypeError\<close> leaves it.
\<close>

definition get_strava_token ::
  "strava_config \<Rightarrow> real \<Rightarrow> token_state \<times> net \<Rightarrow> (py_error + json) \<times> token_state \<times> net" where
  "get_strava_token cfg current_time sn =
     (if \<not> truthy (STRAVA_ACCESS_TOKEN (fst sn))
      then (case refresh_strava_token cfg sn of (token, sn') \<Rightarrow> (Inr token, sn'))
      else
        case minus_300 (STRAVA_TOKEN_EXPIRY (fst sn)) of
          Inl e \<Rightarrow> (Inl e, fst sn, snd sn)
        | Inr limit \<Rightarrow>
            if current_time \<ge> limit
            then (case refresh_strava_token cfg sn of (token, sn') \<Rightarrow> (Inr token, sn'))
            else (Inr (STRAVA_ACCESS_TOKEN (fst sn)), fst sn, snd sn))"

section \<open>The activity-list fetcher (app.py, \<^verbatim>\<open>fetch_strava_activities\<close>)\<close>

definition activities_request :: "json \<Rightarrow> request" where
  "activities_request token =
     HttpGet ''https://www.strava.com/api/v3/athlete/activities?per_page=30'' (Some token)"

text \<open>
  The second \<^verbatim>\<open>GET\<close>, made once after a 401 and a refresh that returned a token. Whatever
  its outcome, the function returns after it.
\<close>

definition retry_activities :: "json \<Rightarrow> token_state \<times> net \<Rightarrow> json \<times> token_state \<times> net" where
  "retry_activities token sn =
     (case http_call (activities_request token) (snd sn) of
        (Raises, n') \<Rightarrow> (JNull, fst sn, n')
      | (Responds status_code body, n') \<Rightarrow>
          if status_code = 200 then
            (case body of None \<Rightarrow> (JNull, fst sn, n') | Some activities \<Rightarrow> (activities, fst sn, n'))
          else (JNull, fst sn, n'))"

text \<open>
  \<^verbatim>\<open>get_strava_token()\<close> is called before the \<^verbatim>\<open>try\<close>, so its exception leaves the fetcher;
  everything after it is inside the \<^verbatim>\<open>try\<close> and ends in \<^verbatim>\<open>return None\<close>. On the first 200 the
  logged \<^verbatim>\<open>len(activities)\<close> raises on a body without a length.
\<close>

definition fetch_strava_activities ::
  "strava_config \<Rightarrow> real \<Rightarrow> token_state \<times> net \<Rightarrow> (py_error + json) \<times> token_state \<times> net" where
  "fetch_strava_activities cfg current_time sn =
     (case get_strava_token cfg current_time sn of
        (Inl e, sn1) \<Rightarrow> (Inl e, sn1)
      | (Inr token, s1, n1) \<Rightarrow>
          if \<not> truthy token then (Inr JNull, s1, n1)
          else
            case http_call (activities_request token) n1 of
              (Raises, n2) \<Rightarrow> (Inr JNull, s1, n2)
            | (Responds status_code body, n2) \<Rightarrow>
                if status_code = 200 then
                  (case body of
                     None \<Rightarrow> (Inr JNull, s1, n2)
                   | Some activities \<Rightarrow>
                       (case py_len activities of
                          Inl e \<Rightarrow> (Inr JNull, s1, n2)
                        | Inr l \<Rightarrow> (Inr activities, s1, n2)))
                else if status_code = 401 then
                  (case refresh_strava_token cfg (s1, n2) of
                     (token', sn3) \<Rightarrow>
                       if truthy token'
                       then (case retry_activities token' sn3 of (r, sn4) \<Rightarrow> (Inr r, sn4))
                       else (Inr JNull, sn3))
                else (Inr JNull, s1, n2))"

section \<open>Formatting (app.py and strava_backend.py, \<^verbatim>\<open>format_time\<close>, \<^verbatim>\<open>format_pace\<close>)\<close>

text \<open>\<^verbatim>\<open>str(i)\<close> and the format \<^verbatim>\<open>{i}\<close> of an integer: decimal digits, a minus sign first.\<close>

fun str_nat :: "nat \<Rightarrow> string" where
  "str_nat n =
     (if n < 10 then [''0123456789'' ! n]
      else str_nat (n div 10) @ [''0123456789'' ! (n mod 10)])"

declare str_nat.simps [simp del]

definition str_int :: "int \<Rightarrow> string" where
  "str_int i = (if i < 0 then CHR ''-'' # str_nat (nat (- i)) else str_nat (nat i))"

text \<open>The format \<^verbatim>\<open>{i:02d}\<close>: zeros up to width 2, the sign counting in the width.\<close>

definition fmt_02d :: "int \<Rightarrow> string" where
  "fmt_02d i = (if 0 \<le> i \<and> i < 10 then CHR ''0'' # str_int i else str_int i)"

text \<open>
  \<^verbatim>\<open>round(x)\<close> on a float rounds half to even. The format \<^verbatim>\<open>{x:.1f}\<close> prints the value rounded
  half to even to one decimal.
\<close>

definition py_round :: "real \<Rightarrow> int" where
  "py_round x =
     (let f = \<lfloor>x\<rfloor>; r = x - of_int f
      in if r < 1 / 2 then f else if 1 / 2 < r then f + 1 else if even f then f else f + 1)"

definition fmt_1f :: "real \<Rightarrow> string" where
  "fmt_1f x =
     (let q = nat (py_round (\<bar>x\<bar> * 10))
      in (if x < 0 then ''-'' else []) @ str_nat (q div 10) @ ''.'' @ str_nat (q mod 10))"

text \<open>
  \<^verbatim>\<open>format_time\<close>, on the integer \<^verbatim>\<open>moving_time\<close>: \<^verbatim>\<open>//\<close> and \<^verbatim>\<open>%\<close> are floor division and
  its remainder, as \<open>div\<close> and \<open>mod\<close> on \<open>int\<close>.
\<close>

definition format_time :: "int \<Rightarrow> string" where
  "format_time seconds =
     (let hours = seconds div 3600;
          minutes = (seconds mod 3600) div 60;
          secs = seconds mod 60
      in if hours > 0 then str_int hours @ '':'' @ fmt_02d minutes @ '':'' @ fmt_02d secs
         else str_int minutes @ '':'' @ fmt_02d secs)"

text \<open>
  The true division \<^verbatim>\<open>a / b\<close> of two Python integers gives the float nearest to the
  quotient, and raises \<^verbatim>\<open>OverflowError\<close> when that is beyond the largest float, which is
  from \<open>2 ^ 1024 - 2 ^ 970\<close> on. The rounding of a real number to the nearest float is the
  parameter \<open>rnd\<close> of everything that computes with floats below.
\<close>

definition dbl_overflow :: real where
  "dbl_overflow = 2 ^ 1024 - 2 ^ 970"

definition int_truediv :: "(real \<Rightarrow> real) \<Rightarrow> int \<Rightarrow> int \<Rightarrow> py_error + real" where
  "int_truediv rnd a b =
     (if b = 0 then Inl ZeroDivisionError
      else if dbl_overflow \<le> \<bar>of_int a / of_int b\<bar> then Inl OverflowError
      else Inr (rnd (of_int a / of_int b)))"

text \<open>\<^verbatim>\<open>int(x)\<close> on a finite float truncates toward zero.\<close>

definition int_of_float :: "real \<Rightarrow> int" where
  "int_of_float x = (if 0 \<le> x then \<lfloor>x\<rfloor> else \<lceil>x\<rceil>)"

text \<open>
  \<^verbatim>\<open>format_pace(seconds_per_meter, distance_meters)\<close>. Its callers pass the integer
  \<^verbatim>\<open>moving_time\<close> and the float \<^verbatim>\<open>distance\<close>. The only division is by 60.
\<close>

definition format_pace :: "(real \<Rightarrow> real) \<Rightarrow> int \<Rightarrow> real \<Rightarrow> py_error + string" where
  "format_pace rnd seconds_per_meter distance_meters =
     (if distance_meters = 0 then Inr ''--:--''
      else
        case int_truediv rnd (seconds_per_meter * 1000) 60 of
          Inl e \<Rightarrow> Inl e
        | Inr pace_per_km \<Rightarrow>
            (let minutes = int_of_float pace_per_km;
                 seconds = int_of_float (rnd (rnd (pace_per_km - of_int minutes) * 60))
             in Inr (str_int minutes @ '':'' @ fmt_02d seconds)))"

section \<open>The aggregators (app.py, \<^verbatim>\<open>parse_strava_data\<close>, \<^verbatim>\<open>parse_strava_detailed\<close>)\<close>

text \<open>
  What the aggregators read from the clock: the instant of \<^verbatim>\<open>datetime.now(tz)\<close> in seconds
  since the epoch, the instant of \<^verbatim>\<open>now.replace(day=1, hour=0, minute=0, second=0, microsecond=0)\<close>,
  and the day number of \<^verbatim>\<open>now.date()\<close>. \<^verbatim>\<open>(now - timedelta(days=k)).date()\<close> is then
  \<open>today_date - k\<close>, and \<^verbatim>\<open>now - timedelta(days=7)\<close> the instant \<open>now_instant - 604800\<close>. The
  clock is read once for a call of an aggregator, also for the streak inside it. Sums and
  quotients of floats are computed on real numbers.
\<close>

record clock =
  now_instant :: real
  month_start :: int
  today_date :: int

text \<open>\<^verbatim>\<open>max(xs, default=d)\<close> and \<^verbatim>\<open>min(xs, default=d)\<close>.\<close>

definition max_default :: "'a::linorder \<Rightarrow> 'a list \<Rightarrow> 'a" where
  "max_default d xs = (case xs of [] \<Rightarrow> d | x # rest \<Rightarrow> fold max rest x)"

definition min_default :: "'a::linorder \<Rightarrow> 'a list \<Rightarrow> 'a" where
  "min_default d xs = (case xs of [] \<Rightarrow> d | x # rest \<Rightarrow> fold min rest x)"

definition elevation_gain :: "activity \<Rightarrow> real" where
  "elevation_gain a = (case total_elevation_gain a of None \<Rightarrow> 0 | Some x \<Rightarrow> x)"

definition month_activities :: "clock \<Rightarrow> activity list \<Rightarrow> activity list" where
  "month_activities clk activities = filter (\<lambda>a. month_start clk \<le> start_date a) activities"

definition week_activities :: "clock \<Rightarrow> activity list \<Rightarrow> activity list" where
  "week_activities clk activities =
     filter (\<lambda>a. now_instant clk - 604800 \<le> of_int (start_date a)) activities"

text \<open>
  The argument is \<^verbatim>\<open>None\<close> or a list of records; \<^verbatim>\<open>not activities or len(activities) == 0\<close>
  holds for \<^verbatim>\<open>None\<close> and for the empty list.
\<close>

definition parse_strava_data :: "clock \<Rightarrow> activity list option \<Rightarrow> json" where
  "parse_strava_data clk arg =
     (case arg of
        None \<Rightarrow>
          JObj [(''display_stat'', JStr ''--''), (''display_label'', JStr ''Keine Daten''),
                (''streak'', JNum 0)]
      | Some activities \<Rightarrow>
          if activities = [] then
            JObj [(''display_stat'', JStr ''--''), (''display_label'', JStr ''Keine Daten''),
                  (''streak'', JNum 0)]
          else
            (let streak = calculate_streak (today_date clk) activities;
                 month_distance = sum_list (map distance (month_activities clk activities)) / 1000;
                 week_count = length (week_activities clk activities);
                 display_stat = (if streak \<ge> 7 then str_int (int streak) else fmt_1f month_distance);
                 display_label = (if streak \<ge> 7 then ''DAY STREAK'' else ''KM MONAT'')
             in JObj [(''display_stat'', JStr display_stat),
                      (''display_label'', JStr display_label),
                      (''streak'', JNum (of_nat streak)),
                      (''month_distance'', JStr (fmt_1f month_distance)),
                      (''week_count'', JNum (of_nat week_count))]))"

definition type_distance :: "string \<Rightarrow> activity list \<Rightarrow> real" where
  "type_distance t activities =
     sum_list (map distance (filter (\<lambda>a. activity_type a = t) activities)) / 1000"

definition heatmap :: "clock \<Rightarrow> activity list \<Rightarrow> json list" where
  "heatmap clk activities =
     map (\<lambda>i. JBool (list_ex (\<lambda>a. activity_date a = today_date clk - (6 - int i)) activities)) [0..<7]"

definition records :: "activity list \<Rightarrow> json" where
  "records activities =
     (let runs = filter (\<lambda>a. activity_type a = ''Run'') activities;
          longest_run = (if runs \<noteq> [] then max_default 0 (map distance runs) / 1000 else 0);
          five_k_runs = filter (\<lambda>a. 4500 \<le> distance a \<and> distance a \<le> 5500) runs;
          fastest_5k_time =
            (if five_k_runs \<noteq> [] then Some (min_default 0 (map moving_time five_k_runs)) else None);
          max_elevation = max_default 0 (map elevation_gain activities)
      in JObj [(''longest_run'',
                 JStr (if longest_run > 0 then fmt_1f longest_run @ '' km'' else ''--'')),
               (''fastest_5k'',
                 JStr (case fastest_5k_time of
                         None \<Rightarrow> ''--''
                       | Some t \<Rightarrow> if t \<noteq> 0 then format_time t else ''--'')),
               (''max_elevation'',
                 JStr (if max_elevation > 0 then str_int (py_round max_elevation) @ ''m''
                       else ''--''))])"

text \<open>
  \<^verbatim>\<open>format_pace\<close> is the one call that can raise on a list of records; the dictionary
  \<^verbatim>\<open>latest_data\<close> is built before everything else.
\<close>

definition parse_strava_detailed ::
  "(real \<Rightarrow> real) \<Rightarrow> clock \<Rightarrow> activity list option \<Rightarrow> py_error + json" where
  "parse_strava_detailed rnd clk arg =
     (case arg of
        None \<Rightarrow> Inr (JObj [(''error'', JStr ''No activities'')])
      | Some activities \<Rightarrow>
          (case activities of
             [] \<Rightarrow> Inr (JObj [(''error'', JStr ''No activities'')])
           | latest # others \<Rightarrow>
               (case format_pace rnd (moving_time latest) (distance latest) of
                  Inl e \<Rightarrow> Inl e
                | Inr pace \<Rightarrow>
                    (let latest_data =
                           JObj [(''distance'', JStr (fmt_1f (distance latest / 1000))),
                                 (''time'', JStr (format_time (moving_time latest))),
                                 (''pace'', JStr pace),
                                 (''elevation'', JNum (of_int (py_round (elevation_gain latest))))];
                         week = week_activities clk activities;
                         run_distance = type_distance ''Run'' week;
                         ride_distance = type_distance ''Ride'' week;
                         swim_distance = type_distance ''Swim'' week;
                         weekly_data =
                           JObj [(''run'', JStr (fmt_1f run_distance)),
                                 (''ride'', JStr (fmt_1f ride_distance)),
                                 (''swim'', JStr (fmt_1f swim_distance)),
                                 (''total'',
                                   JStr (fmt_1f (run_distance + ride_distance + swim_distance)))];
                         month_distance =
                           sum_list (map distance (month_activities clk activities)) / 1000
                     in Inr (JObj [(''streak'', JNum (of_nat (calculate_streak (today_date clk) activities))),
                                   (''month_distance'', JStr (fmt_1f month_distance)),
                                   (''week_count'', JNum (of_nat (length week))),
                                   (''latest'', latest_data),
                                   (''weekly'', weekly_data),
                                   (''heatmap'', JArr (heatmap clk activities)),
                                   (''records'', records activities)])))))"

section \<open>The activity endpoints (app.py, \<^verbatim>\<open>api_strava\<close>, \<^verbatim>\<open>api_strava_detailed\<close>)\<close>




section \<open>The source fetchers (app.py)\<close>

text \<open>
  Inside a \<^verbatim>\<open>try\<close> the first exception ends the block: \<open>and_then\<close> passes a value on and
  stops at an exception.
\<close>

definition and_then :: "py_error + 'a \<Rightarrow> ('a \<Rightarrow> py_error + 'b) \<Rightarrow> py_error + 'b" where
  "and_then m f = (case m of Inl e \<Rightarrow> Inl e | Inr x \<Rightarrow> f x)"

text \<open>\<^verbatim>\<open>data.get(key, {}).get("value", "N/A")\<close>\<close>

definition nested_value :: "json \<Rightarrow> string \<Rightarrow> py_error + json" where
  "nested_value data key =
     and_then (py_get data key (JObj [])) (\<lambda>v. py_get v ''value'' (JStr ''N/A''))"

subsection \<open>\<^verbatim>\<open>fetch_metar\<close>\<close>

text \<open>
  A string is the list of its characters; in the constants below a character outside
  ASCII is written as its UTF-8 bytes.
\<close>

definition metar_fallback :: "string \<Rightarrow> json" where
  "metar_fallback station =
     JObj [(''station'', JStr station),
           (''raw'', JStr (''METAR nicht verf'' @ [CHR 0xC3, CHR 0xBC] @ ''gbar'')),
           (''flight_rules'', JStr ''N/A''),
           (''wind_direction'', JStr ''N/A''),
           (''wind_speed'', JStr ''N/A''),
           (''temperature'', JStr ''N/A''),
           (''dewpoint'', JStr ''N/A''),
           (''visibility'', JStr ''N/A''),
           (''altimeter'', JStr ''N/A'')]"

text \<open>
  The dictionary returned on a 200, after the logged \<^verbatim>\<open>data.get('flight_rules', 'N/A')\<close>. A
  body that is no dictionary, or a reading that is no dictionary, raises \<^verbatim>\<open>AttributeError\<close>.
\<close>

definition metar_record :: "json \<Rightarrow> py_error + json" where
  "metar_record data =
     and_then (py_get data ''flight_rules'' (JStr ''N/A'')) (\<lambda>logged.
     and_then (py_get data ''station'' (JStr ''N/A'')) (\<lambda>station.
     and_then (py_get data ''raw''
        (JStr (''Keine Daten verf'' @ [CHR 0xC3, CHR 0xBC] @ ''gbar''))) (\<lambda>raw.
     and_then (py_get data ''flight_rules'' (JStr ''N/A'')) (\<lambda>flight_rules.
     and_then (nested_value data ''wind_direction'') (\<lambda>wind_direction.
     and_then (nested_value data ''wind_speed'') (\<lambda>wind_speed.
     and_then (nested_value data ''temperature'') (\<lambda>temperature.
     and_then (nested_value data ''dewpoint'') (\<lambda>dewpoint.
     and_then (nested_value data ''visibility'') (\<lambda>visibility.
     and_then (nested_value data ''altimeter'') (\<lambda>altimeter.
       Inr (JObj [(''station'', station),
                  (''raw'', raw),
                  (''flight_rules'', flight_rules),
                  (''wind_direction'', wind_direction),
                  (''wind_speed'', wind_speed),
                  (''temperature'', temperature),
                  (''dewpoint'', dewpoint),
                  (''visibility'', visibility),
                  (''altimeter'', altimeter)])))))))))))"

text \<open>\<open>avwx_token\<close> is the module constant \<^verbatim>\<open>AVWX_TOKEN\<close>.\<close>

definition fetch_metar :: "string \<Rightarrow> string \<Rightarrow> net \<Rightarrow> json \<times> net" where
  "fetch_metar avwx_token station n =
     (case http_call (HttpGet (''https://avwx.rest/api/metar/'' @ station)
                        (Some (JStr avwx_token))) n of
        (Raises, n') \<Rightarrow> (metar_fallback station, n')
      | (Responds status_code body, n') \<Rightarrow>
          if status_code = 200 then
            (case body of
               None \<Rightarrow> (metar_fallback station, n')
             | Some data \<Rightarrow>
                 (case metar_record data of
                    Inl e \<Rightarrow> (metar_fallback station, n')
                  | Inr r \<Rightarrow> (r, n')))
          else (metar_fallback station, n'))"

subsection \<open>\<^verbatim>\<open>fetch_taf\<close>\<close>




subsection \<open>\<^verbatim>\<open>calculate_sun_moon_times\<close>\<close>





subsection \<open>\<^verbatim>\<open>fetch_nasa_epic\<close>\<close>







subsection \<open>\<^verbatim>\<open>fetch_nasa_apod\<close>\<close>

text \<open>
  Strings: \<^verbatim>\<open>sub in s\<close>; the text before the first occurrence of \<^verbatim>\<open>sub\<close>, which is
  \<^verbatim>\<open>s.split(sub)[0]\<close>; and the text after it. Where \<^verbatim>\<open>sub\<close> occurs, \<^verbatim>\<open>s.split(sub)[1]\<close> is the
  text after the first occurrence up to the next one.
\<close>

definition starts_with :: "string \<Rightarrow> string \<Rightarrow> bool" where
  "starts_with sub s = (take (length sub) s = sub)"

primrec contains :: "string \<Rightarrow> string \<Rightarrow> bool" where
  "contains sub [] = (sub = [])"
| "contains sub (c # cs) = (starts_with sub (c # cs) \<or> contains sub cs)"

primrec before_first :: "string \<Rightarrow> string \<Rightarrow> string" where
  "before_first sub [] = []"
| "before_first sub (c # cs) = (if starts_with sub (c # cs) then [] else c # before_first sub cs)"

primrec after_first :: "string \<Rightarrow> string \<Rightarrow> string" where
  "after_first sub [] = []"
| "after_first sub (c # cs) =
     (if starts_with sub (c # cs) then drop (length sub) (c # cs) else after_first sub cs)"

text \<open>
  \<^verbatim>\<open>sub in x\<close> on a value: substring of a string, element of a list, key of a dictionary;
  a \<^verbatim>\<open>TypeError\<close> on the rest.
\<close>

fun py_in :: "string \<Rightarrow> json \<Rightarrow> py_error + bool" where
  "py_in sub (JStr s) = Inr (contains sub s)"
| "py_in sub (JArr xs) = Inr (JStr sub \<in> set xs)"
| "py_in sub (JObj kvs) = Inr (sub \<in> fst ` set kvs)"
| "py_in sub _ = Inl TypeError"

text \<open>
  The rewriting of a watch-page address: \<^verbatim>\<open>video_url.split("v=")[1].split("&")[0]\<close> when
  \<^verbatim>\<open>"v="\<close> occurs, the embed address when the id is not empty. \<^verbatim>\<open>split\<close> is a method of
  strings only.
\<close>

definition embed_url :: "json \<Rightarrow> py_error + json" where
  "embed_url video_url =
     and_then (py_in ''youtube.com/watch'' video_url) (\<lambda>watch.
       if watch then
         and_then (py_in ''v='' video_url) (\<lambda>has_id.
           if has_id then
             (case video_url of
                JStr s \<Rightarrow>
                  (let video_id = before_first ''&'' (before_first ''v='' (after_first ''v='' s))
                   in Inr (if video_id \<noteq> [] then JStr (''https://www.youtube.com/embed/'' @ video_id)
                           else video_url))
              | _ \<Rightarrow> Inl AttributeError)
           else Inr video_url)
       else Inr video_url)"










section \<open>Properties of the cache\<close>

lemma call_through_world:
  "snd (snd (call_through func key args kwargs now (cache, w))) = snd (func args kwargs w)"
  by (simp add: call_through_def split: prod.splits sum.splits)

lemma wrapper_entries_from_calls:
  assumes "fst (snd (wrapper seconds func str_a str_k args kwargs now (cache, w))) k \<noteq> None"
  shows "cache k \<noteq> None \<or> k = cache_key str_a str_k args kwargs"
  using assms
  by (auto simp: wrapper_def call_through_def Let_def
      split: option.splits prod.splits sum.splits if_splits)

text \<open>
  Starting from the empty dictionary, a key is stored only if a call with that key has
  been made: at the first call with an argument tuple its key has no entry.
\<close>

lemma run_cache_entries_from_calls:
  assumes "fst (run_cache seconds func str_a str_k us (cache, w)) k \<noteq> None"
  shows "cache k \<noteq> None \<or> Some k \<in> use_key str_a str_k ` set us"
  using assms
proof (induction us arbitrary: cache w)
  case Nil
  then show ?case by simp
next
  case (Cons u us)
  obtain cache' w' where step: "use_cache seconds func str_a str_k u (cache, w) = (cache', w')"
    by (cases "use_cache seconds func str_a str_k u (cache, w)")
  with Cons.prems have "fst (run_cache seconds func str_a str_k us (cache', w')) k \<noteq> None"
    by simp
  from Cons.IH [OF this]
  consider "cache' k \<noteq> None" | "Some k \<in> use_key str_a str_k ` set us"
    by blast
  then show ?case
  proof cases
    case 1
    show ?thesis
    proof (cases u)
      case (Call args kwargs now)
      with step 1
      have "fst (snd (wrapper seconds func str_a str_k args kwargs now (cache, w))) k \<noteq> None"
        by simp
      from wrapper_entries_from_calls [OF this] Call show ?thesis
        by auto
    next
      case Clear
      with step 1 show ?thesis by (auto simp: clear_cache_def)
    qed
  next
    case 2
    then show ?thesis by auto
  qed
qed

text \<open>
  C1. For a decorated function with TTL \<open>seconds\<close> and any argument tuple: with no entry
  stored under the arguments' key the wrapper invokes the function and stores the result
  with the clock value, and that is the case at the first call with those arguments (after
  any history of calls and clearings from the empty dictionary in which their key has not
  been used); with an entry whose age \<open>now - timestamp\<close> is strictly below the TTL, it
  returns the stored result and leaves the dictionary and the world as they are (the
  function is not invoked); with an entry of age TTL or more, it invokes the function again
  and overwrites the entry.
\<close>

theorem timed_cache_ttl:
  "(cache (cache_key str_a str_k args kwargs) = None \<longrightarrow>
      wrapper seconds func str_a str_k args kwargs now (cache, w) =
        (case func args kwargs w of
           (Inl e, w') \<Rightarrow> (Inl e, cache, w')
         | (Inr result, w') \<Rightarrow>
             (Inr result, cache(cache_key str_a str_k args kwargs \<mapsto> (result, now)), w')))
   \<and> (\<forall>us w0.
        run_cache seconds func str_a str_k us (Map.empty, w0) = (cache, w)
          \<and> Some (cache_key str_a str_k args kwargs) \<notin> use_key str_a str_k ` set us \<longrightarrow>
        cache (cache_key str_a str_k args kwargs) = None)
   \<and> (\<forall>stored timestamp.
        cache (cache_key str_a str_k args kwargs) = Some (stored, timestamp)
          \<and> now - timestamp < seconds \<longrightarrow>
        wrapper seconds func str_a str_k args kwargs now (cache, w) = (Inr stored, cache, w))
   \<and> (\<forall>stored timestamp.
        cache (cache_key str_a str_k args kwargs) = Some (stored, timestamp)
          \<and> seconds \<le> now - timestamp \<longrightarrow>
        wrapper seconds func str_a str_k args kwargs now (cache, w) =
          (case func args kwargs w of
             (Inl e, w') \<Rightarrow> (Inl e, cache, w')
           | (Inr result, w') \<Rightarrow>
               (Inr result, cache(cache_key str_a str_k args kwargs \<mapsto> (result, now)), w')))"
proof -
  have first: "cache (cache_key str_a str_k args kwargs) = None"
    if "run_cache seconds func str_a str_k us (Map.empty, w0) = (cache, w)"
      and "Some (cache_key str_a str_k args kwargs) \<notin> use_key str_a str_k ` set us"
    for us w0
  proof (rule ccontr)
    assume "cache (cache_key str_a str_k args kwargs) \<noteq> None"
    with that(1)
    have "fst (run_cache seconds func str_a str_k us (Map.empty, w0))
        (cache_key str_a str_k args kwargs) \<noteq> None"
      by simp
    from run_cache_entries_from_calls [OF this] that(2) show False by simp
  qed
  have rest: "(cache (cache_key str_a str_k args kwargs) = None \<longrightarrow>
      wrapper seconds func str_a str_k args kwargs now (cache, w) =
        (case func args kwargs w of
           (Inl e, w') \<Rightarrow> (Inl e, cache, w')
         | (Inr result, w') \<Rightarrow>
             (Inr result, cache(cache_key str_a str_k args kwargs \<mapsto> (result, now)), w')))
   \<and> (\<forall>stored timestamp.
        cache (cache_key str_a str_k args kwargs) = Some (stored, timestamp)
          \<and> now - timestamp < seconds \<longrightarrow>
        wrapper seconds func str_a str_k args kwargs now (cache, w) = (Inr stored, cache, w))
   \<and> (\<forall>stored timestamp.
        cache (cache_key str_a str_k args kwargs) = Some (stored, timestamp)
          \<and> seconds \<le> now - timestamp \<longrightarrow>
        wrapper seconds func str_a str_k args kwargs now (cache, w) =
          (case func args kwargs w of
             (Inl e, w') \<Rightarrow> (Inl e, cache, w')
           | (Inr result, w') \<Rightarrow>
               (Inr result, cache(cache_key str_a str_k args kwargs \<mapsto> (result, now)), w')))"
    by (auto simp: wrapper_def call_through_def Let_def split: prod.splits sum.splits)
  from first rest show ?thesis by blast
qed

theorem timed_cache_ttl_witness:
  "wrapper 300 counting_op (\<lambda>s. s) (\<lambda>_. ''{}'') ''EDLP'' () 1000 (Map.empty, 0)
     = (Inr 1, [''EDLP{}'' \<mapsto> (1, 1000)], 1)
   \<and> wrapper 300 counting_op (\<lambda>s. s) (\<lambda>_. ''{}'') ''EDLP'' () 1299
        ([''EDLP{}'' \<mapsto> (1, 1000)], 1)
     = (Inr 1, [''EDLP{}'' \<mapsto> (1, 1000)], 1)
   \<and> wrapper 300 counting_op (\<lambda>s. s) (\<lambda>_. ''{}'') ''EDLP'' () 1300
        ([''EDLP{}'' \<mapsto> (1, 1000)], 1)
     = (Inr 2, [''EDLP{}'' \<mapsto> (2, 1300)], 2)
   \<and> wrapper 300 counting_op (\<lambda>s. s) (\<lambda>_. ''{}'') ''EDDF'' () 1001
        (run_cache 300 counting_op (\<lambda>s. s) (\<lambda>_. ''{}'') [Call ''EDLP'' () 1000] (Map.empty, 0))
     = (Inr 2, [''EDLP{}'' \<mapsto> (1, 1000), ''EDDF{}'' \<mapsto> (2, 1001)], 2)"
proof -
  let ?c1 = "[''EDLP{}'' \<mapsto> (1::nat, 1000::real)]"
  have key: "cache_key (\<lambda>s. s) (\<lambda>_. ''{}'') s () = s @ ''{}''" for s :: string
    by (simp add: cache_key_def)
  have first: "wrapper 300 counting_op (\<lambda>s. s) (\<lambda>_. ''{}'') ''EDLP'' () 1000 (Map.empty, 0)
     = (Inr 1, ?c1, 1)"
    using timed_cache_ttl [where cache = Map.empty and str_a = "\<lambda>s. s" and str_k = "\<lambda>_. ''{}''"
        and args = "''EDLP''" and kwargs = "()" and seconds = 300 and func = counting_op
        and now = 1000 and w = 0]
    by (simp add: key counting_op_def)
  have hit: "wrapper 300 counting_op (\<lambda>s. s) (\<lambda>_. ''{}'') ''EDLP'' () 1299 (?c1, 1)
     = (Inr 1, ?c1, 1)"
    using timed_cache_ttl [where cache = ?c1 and str_a = "\<lambda>s. s"
        and str_k = "\<lambda>_. ''{}''" and args = "''EDLP''" and kwargs = "()" and seconds = 300
        and func = counting_op and now = 1299 and w = 1]
    by (simp add: key)
  have stale: "wrapper 300 counting_op (\<lambda>s. s) (\<lambda>_. ''{}'') ''EDLP'' () 1300 (?c1, 1)
     = (Inr 2, [''EDLP{}'' \<mapsto> (2, 1300)], 2)"
    using timed_cache_ttl [where cache = ?c1 and str_a = "\<lambda>s. s"
        and str_k = "\<lambda>_. ''{}''" and args = "''EDLP''" and kwargs = "()" and seconds = 300
        and func = counting_op and now = 1300 and w = 1]
    by (simp add: key counting_op_def numeral_2_eq_2)
  have run: "run_cache 300 counting_op (\<lambda>s. s) (\<lambda>_. ''{}'') [Call ''EDLP'' () 1000] (Map.empty, 0)
      = (?c1, 1)"
    using first by simp
  have other: "Some (cache_key (\<lambda>s. s) (\<lambda>_. ''{}'') ''EDDF'' ())
      \<notin> use_key (\<lambda>s. s) (\<lambda>_. ''{}'') ` set [Call ''EDLP'' () (1000::real)]"
    by (simp add: key)
  note inst = timed_cache_ttl [where cache = ?c1 and str_a = "\<lambda>s. s"
        and str_k = "\<lambda>_. ''{}''" and args = "''EDDF''" and kwargs = "()" and seconds = 300
        and func = counting_op and now = 1001 and w = 1]
  from inst run other have fresh: "?c1 (cache_key (\<lambda>s. s) (\<lambda>_. ''{}'') ''EDDF'' ()) = None"
    by blast
  with inst have "wrapper 300 counting_op (\<lambda>s. s) (\<lambda>_. ''{}'') ''EDDF'' () 1001 (?c1, 1)
      = (case counting_op ''EDDF'' () 1 of
           (Inl e, w') \<Rightarrow> (Inl e, ?c1, w')
         | (Inr result, w') \<Rightarrow>
             (Inr result, ?c1(cache_key (\<lambda>s. s) (\<lambda>_. ''{}'') ''EDDF'' () \<mapsto> (result, 1001)), w'))"
    by blast
  then have "wrapper 300 counting_op (\<lambda>s. s) (\<lambda>_. ''{}'') ''EDDF'' () 1001 (?c1, 1)
      = (Inr 2, [''EDLP{}'' \<mapsto> (1, 1000), ''EDDF{}'' \<mapsto> (2, 1001)], 2)"
    by (simp add: key counting_op_def numeral_2_eq_2)
  with first hit stale run show ?thesis by simp
qed

text \<open>
  C9. After \<^verbatim>\<open>clear_cache\<close> the next call, with any arguments and at any clock value,
  invokes the decorated function; the stored timestamps play no part.
\<close>

theorem clear_cache_forces_call:
  "wrapper seconds func str_a str_k args kwargs now (clear_cache cache, w) =
     (case func args kwargs w of
        (Inl e, w') \<Rightarrow> (Inl e, Map.empty, w')
      | (Inr result, w') \<Rightarrow>
          (Inr result, [cache_key str_a str_k args kwargs \<mapsto> (result, now)], w'))"
  by (simp add: wrapper_def call_through_def clear_cache_def Let_def split: prod.splits sum.splits)

text \<open>
  Two calls with the same arguments less than the TTL apart invoke the function once; a
  third call, the TTL or more after the first, invokes it again.
\<close>

lemma three_calls:
  assumes "t1 - t0 < seconds" "seconds \<le> t2 - t0"
  shows "run_cache seconds counting_op str_a str_k [Call a k t0, Call a k t1, Call a k t2] (Map.empty, n)
     = ([cache_key str_a str_k a k \<mapsto> (n + 2, t2)], n + 2)"
  using assms by (simp add: wrapper_def call_through_def Let_def counting_op_def)

section \<open>Properties of the streak\<close>


lemma activity_date_mono: "start_date b \<le> start_date a \<Longrightarrow> activity_date b \<le> activity_date a"
  by (simp add: activity_date_def zdiv_mono1)

lemma streak_loop_spec:
  assumes "sorted (map (\<lambda>x. - start_date x) as)"
  shows "s \<le> streak_loop as s c
    \<and> (\<forall>i < streak_loop as s c - s. c - int i \<in> activity_date ` set as)
    \<and> c - int (streak_loop as s c - s) \<notin> activity_date ` set as"
  using assms
proof (induction as arbitrary: s c)
  case Nil
  then show ?case by simp
next
  case (Cons a as)
  from Cons.prems have srt: "sorted (map (\<lambda>x. - start_date x) as)"
    and le: "\<forall>b \<in> set as. activity_date b \<le> activity_date a"
    by (auto intro: activity_date_mono)
  consider (eq) "activity_date a = c" | (lt) "activity_date a < c" | (gt) "c < activity_date a"
    by linarith
  then show ?case
  proof cases
    case eq
    let ?r = "streak_loop as (s + 1) (c - 1)"
    from Cons.IH [OF srt, of "s + 1" "c - 1"]
    have ge: "s + 1 \<le> ?r"
      and all: "\<forall>i < ?r - (s + 1). c - 1 - int i \<in> activity_date ` set as"
      and stop: "c - 1 - int (?r - (s + 1)) \<notin> activity_date ` set as"
      by blast+
    have r: "streak_loop (a # as) s c = ?r" using eq by simp
    have "\<forall>i < ?r - s. c - int i \<in> activity_date ` set (a # as)"
    proof (intro allI impI)
      fix i assume i: "i < ?r - s"
      show "c - int i \<in> activity_date ` set (a # as)"
      proof (cases i)
        case 0
        then show ?thesis using eq by simp
      next
        case (Suc j)
        with i have "j < ?r - (s + 1)" by simp
        with all have "c - 1 - int j \<in> activity_date ` set as" by blast
        moreover have "c - 1 - int j = c - int i" using Suc by simp
        ultimately show ?thesis by simp
      qed
    qed
    moreover have "c - int (?r - s) \<notin> activity_date ` set (a # as)"
    proof -
      have e: "c - int (?r - s) = c - 1 - int (?r - (s + 1))" using ge by simp
      have ne: "c - int (?r - s) \<noteq> activity_date a" using ge eq by simp
      from stop have "c - int (?r - s) \<notin> activity_date ` set as" unfolding e .
      with ne show ?thesis by auto
    qed
    ultimately show ?thesis using r ge by simp
  next
    case lt
    then have r: "streak_loop (a # as) s c = s" by simp
    have "c \<notin> activity_date ` set (a # as)" using lt le by auto
    with r show ?thesis by simp
  next
    case gt
    then have r: "streak_loop (a # as) s c = streak_loop as s c" by simp
    from Cons.IH [OF srt, of s c]
    have ge: "s \<le> streak_loop as s c"
      and all: "\<forall>i < streak_loop as s c - s. c - int i \<in> activity_date ` set as"
      and stop: "c - int (streak_loop as s c - s) \<notin> activity_date ` set as"
      by blast+
    have "c - int (streak_loop as s c - s) \<noteq> activity_date a" using gt by simp
    with r ge all stop show ?thesis by simp
  qed
qed

lemma calculate_streak_spec:
  "(\<forall>i < calculate_streak today acts. today - int i \<in> activity_date ` set acts)
   \<and> today - int (calculate_streak today acts) \<notin> activity_date ` set acts"
proof (cases "acts = []")
  case True
  then show ?thesis by (simp add: calculate_streak_def)
next
  case False
  have "sorted (map (\<lambda>x. - start_date x) (sorted_activities acts))"
    by (simp add: sorted_activities_def)
  from streak_loop_spec [OF this, of 0 today] False show ?thesis
    by (simp add: calculate_streak_def sorted_activities_def)
qed

lemma streak_unique:
  fixes D :: "int set"
  assumes "\<forall>i < m. t - int i \<in> D" "t - int m \<notin> D" "\<forall>i < n. t - int i \<in> D" "t - int n \<notin> D"
  shows "m = n"
proof (rule ccontr)
  assume "m \<noteq> n"
  then consider "m < n" | "n < m" by linarith
  then show False using assms by cases blast+
qed


text \<open>
  C3. \<^verbatim>\<open>calculate_streak\<close> returns the number of consecutive calendar days, counted backward
  from today, that hold at least one activity: each of the days \<open>today\<close>, \<open>today - 1\<close>, ...
  below the result holds an activity, and the next day holds none (the first gap, where the
  loop breaks on a record strictly earlier than the expected day). The result depends on
  the set of days only, so a day with several activities counts once. With activities
  today and yesterday and none the day before yesterday (whatever lies further back, such
  as an activity three days ago), the result is 2.
\<close>

theorem calculate_streak_consecutive_days:
  "(\<forall>i < calculate_streak today acts. today - int i \<in> activity_date ` set acts)
   \<and> today - int (calculate_streak today acts) \<notin> activity_date ` set acts
   \<and> (activity_date ` set acts = activity_date ` set acts' \<longrightarrow>
        calculate_streak today acts = calculate_streak today acts')
   \<and> (today \<in> activity_date ` set acts \<and> today - 1 \<in> activity_date ` set acts
        \<and> today - 2 \<notin> activity_date ` set acts \<longrightarrow>
        calculate_streak today acts = 2)"
proof -
  let ?D = "activity_date ` set acts"
  let ?n = "calculate_streak today acts"
  have spec: "(\<forall>i < ?n. today - int i \<in> ?D) \<and> today - int ?n \<notin> ?D"
    by (rule calculate_streak_spec)
  have same: "?n = calculate_streak today acts'" if "?D = activity_date ` set acts'"
  proof -
    have "(\<forall>i < calculate_streak today acts'. today - int i \<in> ?D)
      \<and> today - int (calculate_streak today acts') \<notin> ?D"
      using calculate_streak_spec [of today acts'] that by simp
    with spec show ?thesis by (blast intro: streak_unique)
  qed
  have two: "?n = 2" if "today \<in> ?D \<and> today - 1 \<in> ?D \<and> today - 2 \<notin> ?D"
  proof -
    have "\<forall>i < (2::nat). today - int i \<in> ?D"
    proof (intro allI impI)
      fix i :: nat assume "i < 2"
      then have "i = 0 \<or> i = 1" by linarith
      with that show "today - int i \<in> ?D" by auto
    qed
    moreover have "today - int 2 \<notin> ?D" using that by simp
    ultimately show ?thesis using spec by (blast intro: streak_unique)
  qed
  from spec same two show ?thesis by blast
qed

theorem calculate_streak_consecutive_days_witness:
  "calculate_streak 19000
     [\<lparr>activity_type = ''Run'', start_date = 1641600000 + 3600, distance = 5000,
        moving_time = 1800, total_elevation_gain = None\<rparr>,
      \<lparr>activity_type = ''Ride'', start_date = 1641340800 + 60, distance = 20000,
        moving_time = 3600, total_elevation_gain = Some 120\<rparr>,
      \<lparr>activity_type = ''Run'', start_date = 1641513600 + 7200, distance = 3000,
        moving_time = 1000, total_elevation_gain = None\<rparr>] = 2"
proof -
  let ?acts = "[\<lparr>activity_type = ''Run'', start_date = 1641600000 + 3600, distance = 5000,
        moving_time = 1800, total_elevation_gain = None\<rparr>,
      \<lparr>activity_type = ''Ride'', start_date = 1641340800 + 60, distance = 20000,
        moving_time = 3600, total_elevation_gain = Some 120\<rparr>,
      \<lparr>activity_type = ''Run'', start_date = 1641513600 + 7200, distance = 3000,
        moving_time = 1000, total_elevation_gain = None\<rparr>]"
  have D: "activity_date ` set ?acts = {19000, 18997, 18999}"
    by (simp add: activity_date_def)
  have "19000 \<in> activity_date ` set ?acts \<and> 19000 - 1 \<in> activity_date ` set ?acts
    \<and> 19000 - 2 \<notin> activity_date ` set ?acts"
    unfolding D by simp
  with calculate_streak_consecutive_days [of 19000 ?acts] show ?thesis
    by blast
qed

section \<open>Properties of the token provider and of the activity-list fetcher\<close>


lemma http_call_sent: "sent (snd (http_call rq n)) = sent n @ [rq]"
  by (simp add: http_call_def split: list.splits)

lemma refresh_unconfigured:
  "STRAVA_REFRESH_TOKEN cfg = [] \<Longrightarrow> refresh_strava_token cfg (s, n) = (JNull, s, n)"
  by (simp add: refresh_strava_token_def)

lemma refresh_net:
  "STRAVA_REFRESH_TOKEN cfg \<noteq> [] \<Longrightarrow>
     snd (snd (refresh_strava_token cfg (s, n))) = snd (http_call (token_request cfg) n)"
  by (simp add: refresh_strava_token_def
      split: prod.splits http_outcome.splits option.splits sum.splits)

lemma refresh_sent:
  "STRAVA_REFRESH_TOKEN cfg \<noteq> [] \<Longrightarrow>
     sent (snd (snd (refresh_strava_token cfg (s, n)))) = sent n @ [token_request cfg]"
  by (simp add: refresh_net http_call_sent)

text \<open>
  A response with status 200 whose body has \<^verbatim>\<open>access_token\<close> and no \<^verbatim>\<open>expires_at\<close>: the
  refresh returns \<^verbatim>\<open>None\<close> and the stored token is the new one, the expiry the old one.
\<close>

lemma refresh_partial_update:
  "refresh_strava_token
     \<lparr>STRAVA_CLIENT_ID = ''id'', STRAVA_CLIENT_SECRET = ''secret'', STRAVA_REFRESH_TOKEN = ''r''\<rparr>
     (\<lparr>STRAVA_ACCESS_TOKEN = JStr ''old'', STRAVA_TOKEN_EXPIRY = JNum 1000\<rparr>,
      \<lparr>pending = [Responds 200 (Some (JObj [(''access_token'', JStr ''new'')]))], sent = []\<rparr>)
   = (JNull,
      \<lparr>STRAVA_ACCESS_TOKEN = JStr ''new'', STRAVA_TOKEN_EXPIRY = JNum 1000\<rparr>,
      \<lparr>pending = [],
       sent = [token_request
         \<lparr>STRAVA_CLIENT_ID = ''id'', STRAVA_CLIENT_SECRET = ''secret'',
          STRAVA_REFRESH_TOKEN = ''r''\<rparr>]\<rparr>)"
  by (simp add: refresh_strava_token_def http_call_def)



text \<open>
  C4. \<^verbatim>\<open>get_strava_token\<close> refreshes when no access token is stored, and when the clock
  has reached the stored expiry minus 300 seconds; with a token stored and the clock
  before that limit it returns the stored token and neither the globals nor the network
  are touched. With a stored token that expires in 200 seconds it refreshes, and the
  refresh sends one request to the token endpoint.
\<close>

theorem get_strava_token_refresh_condition:
  "(\<not> truthy (STRAVA_ACCESS_TOKEN s) \<longrightarrow>
      get_strava_token cfg current_time (s, n) =
        (case refresh_strava_token cfg (s, n) of (token, sn') \<Rightarrow> (Inr token, sn')))
   \<and> (\<forall>expiry.
        truthy (STRAVA_ACCESS_TOKEN s) \<and> STRAVA_TOKEN_EXPIRY s = JNum expiry
          \<and> current_time \<ge> expiry - 300 \<longrightarrow>
        get_strava_token cfg current_time (s, n) =
          (case refresh_strava_token cfg (s, n) of (token, sn') \<Rightarrow> (Inr token, sn')))
   \<and> (\<forall>expiry.
        truthy (STRAVA_ACCESS_TOKEN s) \<and> STRAVA_TOKEN_EXPIRY s = JNum expiry
          \<and> current_time < expiry - 300 \<longrightarrow>
        get_strava_token cfg current_time (s, n) = (Inr (STRAVA_ACCESS_TOKEN s), s, n))
   \<and> (truthy (STRAVA_ACCESS_TOKEN s) \<and> STRAVA_TOKEN_EXPIRY s = JNum (current_time + 200)
        \<and> STRAVA_REFRESH_TOKEN cfg \<noteq> [] \<longrightarrow>
        get_strava_token cfg current_time (s, n) =
          (case refresh_strava_token cfg (s, n) of (token, sn') \<Rightarrow> (Inr token, sn'))
        \<and> sent (snd (snd (get_strava_token cfg current_time (s, n)))) = sent n @ [token_request cfg])"
proof -
  have last: "sent (snd (snd (case refresh_strava_token cfg (s, n) of (token, sn') \<Rightarrow> (Inr token :: py_error + json, sn'))))
      = sent n @ [token_request cfg]" if "STRAVA_REFRESH_TOKEN cfg \<noteq> []"
    using refresh_sent [OF that, of s n] by (cases "refresh_strava_token cfg (s, n)") simp
  show ?thesis
    using last by (auto simp: get_strava_token_def)
qed


theorem get_strava_token_refresh_condition_witness:
  "get_strava_token
      \<lparr>STRAVA_CLIENT_ID = ''id'', STRAVA_CLIENT_SECRET = ''secret'', STRAVA_REFRESH_TOKEN = ''r''\<rparr>
      1000
      (\<lparr>STRAVA_ACCESS_TOKEN = JStr ''old'', STRAVA_TOKEN_EXPIRY = JNum 1200\<rparr>,
       \<lparr>pending = [Responds 200 (Some (JObj [(''access_token'', JStr ''new''),
          (''expires_at'', JNum 22600)]))], sent = []\<rparr>)
     = (Inr (JStr ''new''),
        \<lparr>STRAVA_ACCESS_TOKEN = JStr ''new'', STRAVA_TOKEN_EXPIRY = JNum 22600\<rparr>,
        \<lparr>pending = [],
         sent = [token_request \<lparr>STRAVA_CLIENT_ID = ''id'', STRAVA_CLIENT_SECRET = ''secret'',
           STRAVA_REFRESH_TOKEN = ''r''\<rparr>]\<rparr>)
   \<and> get_strava_token
      \<lparr>STRAVA_CLIENT_ID = ''id'', STRAVA_CLIENT_SECRET = ''secret'', STRAVA_REFRESH_TOKEN = ''r''\<rparr>
      1000
      (\<lparr>STRAVA_ACCESS_TOKEN = JStr ''old'', STRAVA_TOKEN_EXPIRY = JNum 1301\<rparr>,
       \<lparr>pending = [Raises], sent = []\<rparr>)
     = (Inr (JStr ''old''),
        \<lparr>STRAVA_ACCESS_TOKEN = JStr ''old'', STRAVA_TOKEN_EXPIRY = JNum 1301\<rparr>,
        \<lparr>pending = [Raises], sent = []\<rparr>)
   \<and> get_strava_token
      \<lparr>STRAVA_CLIENT_ID = ''id'', STRAVA_CLIENT_SECRET = ''secret'', STRAVA_REFRESH_TOKEN = ''r''\<rparr>
      1000
      (\<lparr>STRAVA_ACCESS_TOKEN = JNull, STRAVA_TOKEN_EXPIRY = JNum 0\<rparr>,
       \<lparr>pending = [Responds 503 None], sent = []\<rparr>)
     = (Inr JNull,
        \<lparr>STRAVA_ACCESS_TOKEN = JNull, STRAVA_TOKEN_EXPIRY = JNum 0\<rparr>,
        \<lparr>pending = [],
         sent = [token_request \<lparr>STRAVA_CLIENT_ID = ''id'', STRAVA_CLIENT_SECRET = ''secret'',
           STRAVA_REFRESH_TOKEN = ''r''\<rparr>]\<rparr>)"
proof -
  let ?cfg = "\<lparr>STRAVA_CLIENT_ID = ''id'', STRAVA_CLIENT_SECRET = ''secret'',
    STRAVA_REFRESH_TOKEN = ''r''\<rparr>"
  let ?soon = "\<lparr>STRAVA_ACCESS_TOKEN = JStr ''old'', STRAVA_TOKEN_EXPIRY = JNum 1200\<rparr>"
  let ?valid = "\<lparr>STRAVA_ACCESS_TOKEN = JStr ''old'', STRAVA_TOKEN_EXPIRY = JNum 1301\<rparr>"
  let ?none = "\<lparr>STRAVA_ACCESS_TOKEN = JNull, STRAVA_TOKEN_EXPIRY = JNum 0\<rparr>"
  let ?ok = "\<lparr>pending = [Responds 200 (Some (JObj [(''access_token'', JStr ''new''),
          (''expires_at'', JNum 22600)]))], sent = []\<rparr>"
  have a: "get_strava_token ?cfg 1000 (?soon, ?ok)
      = (Inr (JStr ''new''),
         \<lparr>STRAVA_ACCESS_TOKEN = JStr ''new'', STRAVA_TOKEN_EXPIRY = JNum 22600\<rparr>,
         \<lparr>pending = [], sent = [token_request ?cfg]\<rparr>)"
    using get_strava_token_refresh_condition [where cfg = ?cfg and s = ?soon and n = ?ok and current_time = 1000]
    by (simp add: refresh_strava_token_def http_call_def)
  have b: "get_strava_token ?cfg 1000 (?valid, \<lparr>pending = [Raises], sent = []\<rparr>)
      = (Inr (JStr ''old''), ?valid, \<lparr>pending = [Raises], sent = []\<rparr>)"
    using get_strava_token_refresh_condition [where cfg = ?cfg and s = ?valid and n = "\<lparr>pending = [Raises], sent = []\<rparr>" and current_time = 1000]
    by simp
  have c: "get_strava_token ?cfg 1000 (?none, \<lparr>pending = [Responds 503 None], sent = []\<rparr>)
      = (Inr JNull, ?none, \<lparr>pending = [], sent = [token_request ?cfg]\<rparr>)"
    using get_strava_token_refresh_condition
      [where cfg = ?cfg and s = ?none and n = "\<lparr>pending = [Responds 503 None], sent = []\<rparr>"
        and current_time = 1000]
    by (simp add: refresh_strava_token_def http_call_def)
  from a b c show ?thesis by blast
qed

text \<open>
  With a token stored and an expiry that is no number (a token response may carry any
  JSON value), the subtraction raises and the exception leaves \<^verbatim>\<open>get_strava_token\<close>.
\<close>

lemma get_strava_token_type_error:
  "get_strava_token cfg current_time
     (\<lparr>STRAVA_ACCESS_TOKEN = JStr ''old'', STRAVA_TOKEN_EXPIRY = JStr ''soon''\<rparr>, n)
   = (Inl TypeError, \<lparr>STRAVA_ACCESS_TOKEN = JStr ''old'', STRAVA_TOKEN_EXPIRY = JStr ''soon''\<rparr>, n)"
  by (simp add: get_strava_token_def)

text \<open>
  C6. When the first \<^verbatim>\<open>GET\<close> of the activity list is answered 401, the fetcher calls the
  refresh once. If the refresh returns a token, it sends one more \<^verbatim>\<open>GET\<close> with that token
  and returns after it: the requests sent after the 401 are the token request and the one
  retry, and a retry answered by anything but 200 (a second 401 among them) gives \<^verbatim>\<open>None\<close>.
  If the refresh returns no token, the fetcher returns \<^verbatim>\<open>None\<close> without a retry.
\<close>

theorem fetch_401_one_refresh_one_retry:
  assumes token: "get_strava_token cfg current_time (s, n) = (Inr token, s1, n1)" "truthy token"
    and rejected: "http_call (activities_request token) n1 = (Responds 401 body, n2)"
    and refreshed: "refresh_strava_token cfg (s1, n2) = (token', s3, n3)"
  shows "(truthy token' \<longrightarrow>
            fetch_strava_activities cfg current_time (s, n) =
              (case retry_activities token' (s3, n3) of (r, sn4) \<Rightarrow> (Inr r, sn4))
            \<and> sent (snd (snd (fetch_strava_activities cfg current_time (s, n)))) =
                sent n2 @ [token_request cfg, activities_request token']
            \<and> (\<forall>status_code body'.
                  fst (http_call (activities_request token') n3) = Responds status_code body'
                    \<and> status_code \<noteq> 200 \<longrightarrow>
                  fst (fetch_strava_activities cfg current_time (s, n)) = Inr JNull))
         \<and> (\<not> truthy token' \<longrightarrow>
            fetch_strava_activities cfg current_time (s, n) = (Inr JNull, s3, n3)
            \<and> sent n3 = sent n2 @ (if STRAVA_REFRESH_TOKEN cfg = [] then [] else [token_request cfg]))"
proof -
  have fetch: "fetch_strava_activities cfg current_time (s, n) =
      (if truthy token'
       then (case retry_activities token' (s3, n3) of (r, sn4) \<Rightarrow> (Inr r, sn4))
       else (Inr JNull, s3, n3))"
    using assms by (simp add: fetch_strava_activities_def)
  have log3: "sent n3 = sent n2 @ (if STRAVA_REFRESH_TOKEN cfg = [] then [] else [token_request cfg])"
  proof (cases "STRAVA_REFRESH_TOKEN cfg = []")
    case True
    with refreshed refresh_unconfigured [OF True, of s1 n2] show ?thesis by simp
  next
    case False
    with refreshed refresh_sent [OF False, of s1 n2] show ?thesis by simp
  qed
  have configured: "STRAVA_REFRESH_TOKEN cfg \<noteq> []" if "truthy token'"
  proof
    assume "STRAVA_REFRESH_TOKEN cfg = []"
    from refresh_unconfigured [OF this, of s1 n2] refreshed that show False by simp
  qed
  have retry_net: "snd (snd (retry_activities token' (s3, n3))) = snd (http_call (activities_request token') n3)"
    by (simp add: retry_activities_def split: prod.splits http_outcome.splits option.splits)
  have retry_rejected: "fst (retry_activities token' (s3, n3)) = JNull"
    if "fst (http_call (activities_request token') n3) = Responds status_code body'" "status_code \<noteq> 200"
    for status_code body'
    using that by (cases "http_call (activities_request token') n3") (simp add: retry_activities_def)
  show ?thesis
  proof (cases "truthy token'")
    case True
    have "sent (snd (snd (fetch_strava_activities cfg current_time (s, n)))) =
        sent n2 @ [token_request cfg, activities_request token']"
      using True fetch retry_net log3 configured [OF True]
      by (cases "retry_activities token' (s3, n3)") (simp add: http_call_sent)
    moreover have "fst (fetch_strava_activities cfg current_time (s, n)) = Inr JNull"
      if "fst (http_call (activities_request token') n3) = Responds status_code body'" "status_code \<noteq> 200"
      for status_code body'
      using True fetch retry_rejected [OF that]
      by (cases "retry_activities token' (s3, n3)") simp
    ultimately show ?thesis using True fetch by auto
  next
    case False
    with fetch log3 show ?thesis by simp
  qed
qed


theorem fetch_401_one_refresh_one_retry_witness:
  "fetch_strava_activities
      \<lparr>STRAVA_CLIENT_ID = ''id'', STRAVA_CLIENT_SECRET = ''secret'', STRAVA_REFRESH_TOKEN = ''r''\<rparr>
      1000
      (\<lparr>STRAVA_ACCESS_TOKEN = JStr ''old'', STRAVA_TOKEN_EXPIRY = JNum 9000\<rparr>,
       \<lparr>pending = [Responds 401 None,
                   Responds 200 (Some (JObj [(''access_token'', JStr ''new''),
                     (''expires_at'', JNum 22600)])),
                   Responds 401 None,
                   Responds 200 (Some (JArr []))],
        sent = []\<rparr>)
     = (Inr JNull,
        \<lparr>STRAVA_ACCESS_TOKEN = JStr ''new'', STRAVA_TOKEN_EXPIRY = JNum 22600\<rparr>,
        \<lparr>pending = [Responds 200 (Some (JArr []))],
         sent = [activities_request (JStr ''old''),
                 token_request \<lparr>STRAVA_CLIENT_ID = ''id'', STRAVA_CLIENT_SECRET = ''secret'',
                   STRAVA_REFRESH_TOKEN = ''r''\<rparr>,
                 activities_request (JStr ''new'')]\<rparr>)"
proof -
  let ?cfg = "\<lparr>STRAVA_CLIENT_ID = ''id'', STRAVA_CLIENT_SECRET = ''secret'',
    STRAVA_REFRESH_TOKEN = ''r''\<rparr>"
  let ?s = "\<lparr>STRAVA_ACCESS_TOKEN = JStr ''old'', STRAVA_TOKEN_EXPIRY = JNum 9000\<rparr>"
  let ?s3 = "\<lparr>STRAVA_ACCESS_TOKEN = JStr ''new'', STRAVA_TOKEN_EXPIRY = JNum 22600\<rparr>"
  let ?tok = "Responds 200 (Some (JObj [(''access_token'', JStr ''new''),
    (''expires_at'', JNum 22600)]))"
  let ?n = "\<lparr>pending = [Responds 401 None, ?tok, Responds 401 None,
    Responds 200 (Some (JArr []))], sent = []\<rparr>"
  let ?n2 = "\<lparr>pending = [?tok, Responds 401 None, Responds 200 (Some (JArr []))],
    sent = [activities_request (JStr ''old'')]\<rparr>"
  let ?n3 = "\<lparr>pending = [Responds 401 None, Responds 200 (Some (JArr []))],
    sent = [activities_request (JStr ''old''), token_request ?cfg]\<rparr>"
  have token: "get_strava_token ?cfg 1000 (?s, ?n) = (Inr (JStr ''old''), ?s, ?n)"
    by (simp add: get_strava_token_def)
  have truthy: "truthy (JStr ''old'')" by simp
  have rejected: "http_call (activities_request (JStr ''old'')) ?n = (Responds 401 None, ?n2)"
    by (simp add: http_call_def)
  have refreshed: "refresh_strava_token ?cfg (?s, ?n2) = (JStr ''new'', ?s3, ?n3)"
    by (simp add: refresh_strava_token_def http_call_def)
  have "fetch_strava_activities ?cfg 1000 (?s, ?n) =
      (case retry_activities (JStr ''new'') (?s3, ?n3) of (r, sn4) \<Rightarrow> (Inr r, sn4))"
    using fetch_401_one_refresh_one_retry [OF token truthy rejected refreshed] by simp
  then show ?thesis
    by (simp add: retry_activities_def http_call_def)
qed

section \<open>Properties of the formatters, the aggregators and the endpoints\<close>


lemma dbl_overflow_le: "dbl_overflow \<le> 2 ^ 1024"
proof -
  have "(0::real) \<le> 2 ^ 970" by (rule zero_le_power) simp
  then show ?thesis unfolding dbl_overflow_def by linarith
qed

lemma dbl_overflow_ge: "2 ^ 1023 \<le> dbl_overflow"
proof -
  have "(2::real) ^ 970 \<le> 2 ^ 1023" by (rule power_increasing) simp_all
  moreover have "(2::real) ^ 1024 = 2 * 2 ^ 1023"
    by (simp only: power_Suc [symmetric]) simp
  ultimately show ?thesis unfolding dbl_overflow_def by linarith
qed

lemma small_below_overflow: "\<bar>x\<bar> \<le> 2 ^ 64 \<Longrightarrow> x < dbl_overflow"
proof -
  assume "\<bar>x\<bar> \<le> 2 ^ 64"
  moreover have "(2::real) ^ 64 < 2 ^ 1023" by (rule power_strict_increasing) simp_all
  ultimately show ?thesis using dbl_overflow_ge by linarith
qed

lemma overflow_at_2_1024: "dbl_overflow \<le> \<bar>real_of_int (2 ^ 1024 * 1000) / 60\<bar>"
proof -
  have pos: "(0::real) \<le> 2 ^ 1024" by (rule zero_le_power) simp
  have eq: "real_of_int (2 ^ 1024 * 1000) / 60 = 2 ^ 1024 * (50 / 3)"
    by (simp only: of_int_mult of_int_power of_int_numeral)
  have "(2::real) ^ 1024 \<le> 2 ^ 1024 * (50 / 3)"
    using pos by (simp add: mult_le_cancel_left1 del: power_numeral)
  then have "(2::real) ^ 1024 \<le> \<bar>2 ^ 1024 * (50 / 3)\<bar>" by linarith
  then show ?thesis using dbl_overflow_le unfolding eq by linarith
qed


lemma format_pace_overflow:
  assumes "distance_meters \<noteq> 0"
    and "dbl_overflow \<le> \<bar>real_of_int (seconds_per_meter * 1000) / 60\<bar>"
  shows "format_pace rnd seconds_per_meter distance_meters = Inl OverflowError"
  using assms by (simp add: format_pace_def int_truediv_def)

text \<open>
  C10, as the code has it. \<^verbatim>\<open>format_pace\<close> returns \<^verbatim>\<open>"--:--"\<close> when the distance is 0. Otherwise
  its one division is by the constant 60, so it never raises \<^verbatim>\<open>ZeroDivisionError\<close>; it
  returns a string for every integer moving time whose quotient \<open>moving_time * 1000 / 60\<close>
  is below the float overflow bound, and raises \<^verbatim>\<open>OverflowError\<close> from that bound on. The
  distance takes no part beyond the test against 0.
\<close>

theorem format_pace_total_in_range:
  "(distance_meters = 0 \<longrightarrow> format_pace rnd seconds_per_meter distance_meters = Inr ''--:--'')
   \<and> format_pace rnd seconds_per_meter distance_meters \<noteq> Inl ZeroDivisionError
   \<and> (\<bar>real_of_int (seconds_per_meter * 1000) / 60\<bar> < dbl_overflow \<longrightarrow>
        (\<exists>s. format_pace rnd seconds_per_meter distance_meters = Inr s))
   \<and> (distance_meters \<noteq> 0 \<and> dbl_overflow \<le> \<bar>real_of_int (seconds_per_meter * 1000) / 60\<bar> \<longrightarrow>
        format_pace rnd seconds_per_meter distance_meters = Inl OverflowError)"
  by (simp add: format_pace_def int_truediv_def Let_def)

theorem format_pace_total_in_range_witness:
  "format_pace id 1800 0 = Inr ''--:--''
   \<and> (\<exists>s. format_pace id 1800 5000 = Inr s)
   \<and> format_pace id (2 ^ 1024) 1 = Inl OverflowError"
proof -
  have a: "format_pace id 1800 0 = Inr ''--:--''"
    using format_pace_total_in_range [where distance_meters = 0 and rnd = id
        and seconds_per_meter = 1800]
    by simp
  have "\<bar>real_of_int (1800 * 1000) / 60\<bar> < dbl_overflow"
    by (rule small_below_overflow) simp
  then have b: "\<exists>s. format_pace id 1800 5000 = Inr s"
    using format_pace_total_in_range [where distance_meters = 5000 and rnd = id
        and seconds_per_meter = 1800]
    by blast
  have c: "format_pace id (2 ^ 1024) 1 = Inl OverflowError"
    using format_pace_total_in_range [where distance_meters = 1 and rnd = id
        and seconds_per_meter = "2 ^ 1024"] overflow_at_2_1024
    by (simp del: power_numeral of_int_mult of_int_power)
  from a b c show ?thesis by blast
qed

text \<open>
  As stated, C10 fails on an integer moving time beyond the float range:
  \<^verbatim>\<open>format_pace(2**1024, 1)\<close> raises \<^verbatim>\<open>OverflowError\<close>.
\<close>

theorem format_pace_overflow_counterexample:
  "format_pace id (2 ^ 1024) 1 = Inl OverflowError"
  by (rule format_pace_overflow) (simp, rule overflow_at_2_1024)

text \<open>
  The pace the function prints for 5 km in 30 minutes: the moving time is not divided by
  the distance.
\<close>

lemma format_pace_example: "format_pace id 1800 5000 = Inr ''30000:00''"
proof -
  have "\<bar>real_of_int (1800 * 1000) / 60\<bar> < dbl_overflow"
    by (rule small_below_overflow) simp
  then show ?thesis
    by (simp add: format_pace_def int_truediv_def int_of_float_def
      str_int_def fmt_02d_def str_nat.simps)
qed

text \<open>
  C7, as the code has it. On the empty list no aggregator raises: \<^verbatim>\<open>calculate_streak\<close> returns
  0, \<^verbatim>\<open>parse_strava_data\<close> returns the placeholder with \<^verbatim>\<open>"--"\<close>, \<^verbatim>\<open>"Keine Daten"\<close> and streak 0,
  and \<^verbatim>\<open>parse_strava_detailed\<close> returns the dictionary \<^verbatim>\<open>{"error": "No activities"}\<close>. The guard
  returns before records, heat map and rollups are computed, so none of them is in the
  result.
\<close>

theorem empty_list_aggregates:
  "calculate_streak d [] = 0
   \<and> parse_strava_data clk (Some []) =
       JObj [(''display_stat'', JStr ''--''), (''display_label'', JStr ''Keine Daten''),
             (''streak'', JNum 0)]
   \<and> parse_strava_detailed rnd clk (Some []) = Inr (JObj [(''error'', JStr ''No activities'')])"
  by (simp add: calculate_streak_def parse_strava_data_def parse_strava_detailed_def)

text \<open>
  As stated, C7 fails: on the empty list the detailed aggregate has neither a heat map
  of seven \<^verbatim>\<open>False\<close> nor records of \<^verbatim>\<open>"--"\<close>, and the simple aggregate has no rollups.
\<close>

theorem empty_list_aggregates_counterexample:
  "parse_strava_detailed id
       \<lparr>now_instant = 1641600000, month_start = 1640991600, today_date = 19000\<rparr> (Some [])
     = Inr (JObj [(''error'', JStr ''No activities'')])
   \<and> subscript (JObj [(''error'', JStr ''No activities'')]) ''heatmap'' = Inl KeyError
   \<and> subscript (JObj [(''error'', JStr ''No activities'')]) ''records'' = Inl KeyError
   \<and> subscript (parse_strava_data
         \<lparr>now_instant = 1641600000, month_start = 1640991600, today_date = 19000\<rparr> (Some []))
       ''month_distance'' = Inl KeyError
   \<and> subscript (parse_strava_data
         \<lparr>now_instant = 1641600000, month_start = 1640991600, today_date = 19000\<rparr> (Some []))
       ''week_count'' = Inl KeyError"
  by (simp add: parse_strava_data_def parse_strava_detailed_def)







section \<open>Properties of the source fetchers\<close>




























text \<open>
  A report answered 200 with some readings missing: the missing ones are \<^verbatim>\<open>"N/A"\<close>, the record
  is not the fallback.
\<close>

lemma fetch_metar_example:
  "fst (fetch_metar ''token'' ''EDLP''
      \<lparr>pending = [Responds 200 (Some (JObj [(''station'', JStr ''EDLP''),
                     (''raw'', JStr ''EDLP 081250Z 24008KT''),
                     (''flight_rules'', JStr ''VFR''),
                     (''wind_speed'', JObj [(''value'', JNum 8)])]))],
       sent = []\<rparr>)
   = JObj [(''station'', JStr ''EDLP''),
           (''raw'', JStr ''EDLP 081250Z 24008KT''),
           (''flight_rules'', JStr ''VFR''),
           (''wind_direction'', JStr ''N/A''),
           (''wind_speed'', JNum 8),
           (''temperature'', JStr ''N/A''),
           (''dewpoint'', JStr ''N/A''),
           (''visibility'', JStr ''N/A''),
           (''altimeter'', JStr ''N/A'')]"
  by (simp add: fetch_metar_def metar_record_def and_then_def nested_value_def http_call_def)

text \<open>A watch-page address is rewritten to the embed address of its video id.\<close>

lemma embed_url_example:
  "embed_url (JStr ''https://www.youtube.com/watch?v=abc123&t=5'')
     = Inr (JStr ''https://www.youtube.com/embed/abc123'')"
  by (simp add: embed_url_def and_then_def starts_with_def)

end
